theory Spec2Isabelle
  imports Complex_Main
begin

section \<open>Values, errors and the parsed report\<close>

text \<open>
  The attributes that \<^verbatim>\<open>app.py\<close> reads from the objects of the XML parser are
  dynamically typed. A value is \<^verbatim>\<open>None\<close>, an \<^verbatim>\<open>int\<close>, a \<^verbatim>\<open>float\<close> or a
  \<^verbatim>\<open>str\<close>. The program only copies these values, it never computes with them, so a
  float is carried as a real number.
\<close>

datatype pyval = PyNone | PyInt int | PyFloat real | PyStr string

text \<open>
  The exceptions that reach the handlers: the XML parser rejecting the text, the
  upstream fetch failing, the database refusing a row, the JSON decoder rejecting a
  stored text. Each carries its message.
\<close>

datatype error =
    ParseError string
  | NetworkError string
  | IntegrityError string
  | DecodeError string

text \<open>
  The objects of the parser, with the attributes that \<^verbatim>\<open>parse_blast_results\<close>
  reads: \<^verbatim>\<open>hsp.score\<close>, \<^verbatim>\<open>hsp.expect\<close>, \<^verbatim>\<open>hsp.query_start\<close>,
  \<^verbatim>\<open>hsp.query_end\<close>, \<^verbatim>\<open>hsp.query\<close>, \<^verbatim>\<open>hsp.match\<close>, \<^verbatim>\<open>hsp.sbjct\<close>;
  \<^verbatim>\<open>alignment.title\<close>, \<^verbatim>\<open>alignment.length\<close> (here \<open>length_attr\<close>, since
  \<open>length\<close> is the length of a list), \<^verbatim>\<open>alignment.hsps\<close>;
  \<^verbatim>\<open>blast_record.alignments\<close>.
\<close>

record hsp =
  score :: pyval
  expect :: pyval
  query_start :: pyval
  query_end :: pyval
  query :: pyval
  match :: pyval
  sbjct :: pyval

record alignment =
  title :: pyval
  length_attr :: pyval
  hsps :: "hsp list"

record blast_record =
  alignments :: "alignment list"

text \<open>
  \<^verbatim>\<open>NCBIXML.parse\<close> returns a generator: each step of the \<^verbatim>\<open>for\<close> loop either
  receives the next record, or finds the generator exhausted, or has the exception of
  the parser raised in the loop header.
\<close>

datatype 'a generator = StopIteration | Yield 'a "'a generator" | Raise error

text \<open>A dictionary literal: the keys in the order written, each with its value.\<close>

type_synonym match_entry = "(string \<times> pyval) list"

section \<open>parse_blast_results\<close>

text \<open>The dictionary appended at lines 53 to 63.\<close>

definition match_entry :: "alignment \<Rightarrow> hsp \<Rightarrow> match_entry" where
  "match_entry alignment hsp =
     [(''title'', title alignment),
      (''length'', length_attr alignment),
      (''score'', score hsp),
      (''e_value'', expect hsp),
      (''query_start'', query_start hsp),
      (''query_end'', query_end hsp),
      (''qseq'', query hsp),
      (''match'', match hsp),
      (''hseq'', sbjct hsp)]"

text \<open>\<^verbatim>\<open>for hsp in alignment.hsps: parsed_results.append({...})\<close>\<close>

fun hsp_loop :: "alignment \<Rightarrow> hsp list \<Rightarrow> match_entry list \<Rightarrow> match_entry list" where
  "hsp_loop alignment [] parsed_results = parsed_results"
| "hsp_loop alignment (hsp # rest) parsed_results =
     hsp_loop alignment rest (parsed_results @ [match_entry alignment hsp])"

text \<open>\<^verbatim>\<open>for alignment in blast_record.alignments: ...\<close>\<close>

fun alignment_loop :: "alignment list \<Rightarrow> match_entry list \<Rightarrow> match_entry list" where
  "alignment_loop [] parsed_results = parsed_results"
| "alignment_loop (alignment # rest) parsed_results =
     alignment_loop rest (hsp_loop alignment (hsps alignment) parsed_results)"

text \<open>
  \<^verbatim>\<open>for blast_record in blast_records: ...\<close> followed by
  \<^verbatim>\<open>return parsed_results\<close>. An exception of the generator leaves the function, and
  the local list with it.
\<close>

fun record_loop :: "blast_record generator \<Rightarrow> match_entry list \<Rightarrow> error + match_entry list" where
  "record_loop StopIteration parsed_results = Inr parsed_results"
| "record_loop (Raise e) parsed_results = Inl e"
| "record_loop (Yield blast_record blast_records) parsed_results =
     record_loop blast_records (alignment_loop (alignments blast_record) parsed_results)"

text \<open>
  The parser of the library is a parameter: \<open>NCBIXML_parse\<close> maps the text of the
  handle to the generator of its records.
\<close>

definition parse_blast_results ::
  "(string \<Rightarrow> blast_record generator) \<Rightarrow> string \<Rightarrow> error + match_entry list" where
  "parse_blast_results NCBIXML_parse blast_results =
     record_loop (NCBIXML_parse blast_results) []"

section \<open>Reports\<close>

text \<open>
  A generator that yields the records \<open>rs\<close> and is then exhausted: the parser has
  accepted the text as a report with these records.
\<close>

definition report :: "blast_record list \<Rightarrow> blast_record generator" where
  "report rs = foldr Yield rs StopIteration"

text \<open>
  A generator that yields the records \<open>rs\<close> and then raises: the parser has rejected
  the text, at once when \<open>rs\<close> is empty, or after the records it had already read.
\<close>

definition rejected :: "blast_record list \<Rightarrow> error \<Rightarrow> blast_record generator" where
  "rejected rs e = foldr Yield rs (Raise e)"

text \<open>
  The HSPs of a report in nesting order, each with its enclosing alignment: records in
  order, within a record its alignments in order, within an alignment its HSPs in order.
\<close>

definition hsps_of_record :: "blast_record \<Rightarrow> (alignment \<times> hsp) list" where
  "hsps_of_record r = concat (map (\<lambda>a. map (Pair a) (hsps a)) (alignments r))"

definition hsps_in_order :: "blast_record list \<Rightarrow> (alignment \<times> hsp) list" where
  "hsps_in_order rs = concat (map hsps_of_record rs)"

text \<open>The number of HSPs of a report: the sum over its records and their alignments.\<close>

definition hsp_count :: "blast_record list \<Rightarrow> nat" where
  "hsp_count rs = (\<Sum>r\<leftarrow>rs. \<Sum>a\<leftarrow>alignments r. length (hsps a))"

text \<open>
  Field-by-field agreement of an entry with the HSP it was built from and the alignment
  enclosing that HSP: looking a key up in the entry gives the attribute itself.
\<close>

definition copied_verbatim :: "match_entry \<Rightarrow> alignment \<times> hsp \<Rightarrow> bool" where
  "copied_verbatim e ah =
     (map_of e ''title'' = Some (title (fst ah)) \<and>
      map_of e ''length'' = Some (length_attr (fst ah)) \<and>
      map_of e ''score'' = Some (score (snd ah)) \<and>
      map_of e ''e_value'' = Some (expect (snd ah)) \<and>
      map_of e ''query_start'' = Some (query_start (snd ah)) \<and>
      map_of e ''query_end'' = Some (query_end (snd ah)) \<and>
      map_of e ''qseq'' = Some (query (snd ah)) \<and>
      map_of e ''match'' = Some (match (snd ah)) \<and>
      map_of e ''hseq'' = Some (sbjct (snd ah)))"

text \<open>The Python types of a value.\<close>

fun is_str :: "pyval \<Rightarrow> bool" where
  "is_str (PyStr s) = True"
| "is_str v = False"

fun is_int :: "pyval \<Rightarrow> bool" where
  "is_int (PyInt i) = True"
| "is_int v = False"

fun is_numeric :: "pyval \<Rightarrow> bool" where
  "is_numeric (PyInt i) = True"
| "is_numeric (PyFloat x) = True"
| "is_numeric v = False"

text \<open>The names of the fields of an entry, as the dictionary literal writes them.\<close>

definition field_names :: "string list" where
  "field_names =
     [''title'', ''length'', ''score'', ''e_value'', ''query_start'', ''query_end'',
      ''qseq'', ''match'', ''hseq'']"

text \<open>
  The names that the data model of the specification gives to the same nine fields.
\<close>

definition spec_field_names :: "string list" where
  "spec_field_names =
     [''title'', ''length'', ''score'', ''e_value'', ''query_start'', ''query_end'',
      ''query_sequence'', ''match_line'', ''subject_sequence'']"

text \<open>The types of the fields of an entry.\<close>

definition has_type :: "match_entry \<Rightarrow> string \<Rightarrow> (pyval \<Rightarrow> bool) \<Rightarrow> bool" where
  "has_type e k ty = (case map_of e k of None \<Rightarrow> False | Some v \<Rightarrow> ty v)"

text \<open>
  The types of an entry follow its source, field by field: the title of the entry is a
  string exactly when the title of the alignment is, its length an integer exactly when
  the length of the alignment is, its score and its e-value numbers exactly when those
  of the HSP are, its query offsets integers exactly when those of the HSP are.
\<close>

definition typed_as_source :: "match_entry \<Rightarrow> alignment \<times> hsp \<Rightarrow> bool" where
  "typed_as_source e ah =
     (has_type e ''title'' is_str = is_str (title (fst ah)) \<and>
      has_type e ''length'' is_int = is_int (length_attr (fst ah)) \<and>
      has_type e ''score'' is_numeric = is_numeric (score (snd ah)) \<and>
      has_type e ''e_value'' is_numeric = is_numeric (expect (snd ah)) \<and>
      has_type e ''query_start'' is_int = is_int (query_start (snd ah)) \<and>
      has_type e ''query_end'' is_int = is_int (query_end (snd ah)))"

section \<open>The store and the request handlers\<close>

text \<open>
  The rows of the two tables (lines 22 to 37). \<open>uid\<close> is \<^verbatim>\<open>User.id\<close> and
  \<open>task_id\<close> is \<^verbatim>\<open>Task.id\<close>. Only \<^verbatim>\<open>Task.result\<close> is nullable.
\<close>

record user =
  uid :: int
  username :: string
  password :: string

record task =
  task_id :: int
  taskname :: string
  program :: string
  database :: string
  sequence :: string
  result :: "string option"
  user_id :: int

record store =
  users :: "user list"
  tasks :: "task list"

datatype http_method = GET | POST

record request =
  request_method :: http_method
  form :: "string \<Rightarrow> string option"

text \<open>What \<^verbatim>\<open>json.loads\<close> returns.\<close>

datatype json =
    JNull
  | JBool bool
  | JInt int
  | JFloat real
  | JStr string
  | JArray "json list"
  | JObject "(string \<times> json) list"

text \<open>
  The flashed messages, each with its category, and the responses of the two handlers.
  \<open>Unauthorized\<close> is what \<^verbatim>\<open>login_required\<close> answers when nobody is logged in,
  \<open>NotFound\<close> the page of \<^verbatim>\<open>first_or_404\<close>, \<open>ServerError\<close> the answer of the
  handler registered for \<^verbatim>\<open>Exception\<close>.
\<close>

datatype flash_message = BlastSuccess | ErrorOccurred error | NoAccessToTask

type_synonym flash = "flash_message \<times> string"

datatype response =
    Unauthorized
  | NotFound
  | ServerError error
  | Redirect_user_index string
  | Render_blast bool
  | Render_results task json

record outcome =
  response :: response
  flashed :: "flash list"
  persisted :: store

text \<open>\<^verbatim>\<open>str\<close> of a form value inside the f-string: a missing field is \<^verbatim>\<open>None\<close>.\<close>

fun py_str :: "string option \<Rightarrow> string" where
  "py_str None = ''None''"
| "py_str (Some s) = s"

text \<open>The next value of the integer primary key of the task table.\<close>

definition next_task_id :: "store \<Rightarrow> int" where
  "next_task_id db = fold max (map task_id (tasks db)) 0 + 1"

text \<open>
  \<^verbatim>\<open>db.session.add(task); db.session.commit()\<close> under the constraints of the
  table: \<^verbatim>\<open>program\<close>, \<^verbatim>\<open>database\<close> and \<^verbatim>\<open>sequence\<close> are not nullable and
  \<^verbatim>\<open>taskname\<close> is unique. A refused row raises and the table stays as it was.
\<close>

definition add_and_commit ::
  "store \<Rightarrow> string \<Rightarrow> string option \<Rightarrow> string option \<Rightarrow> string option \<Rightarrow>
   string option \<Rightarrow> int \<Rightarrow> error + store" where
  "add_and_commit db name prog dbase sequ res owner =
     (case (prog, dbase, sequ) of
        (Some p, Some d, Some s) \<Rightarrow>
          if name \<in> set (map taskname (tasks db))
          then Inl (IntegrityError ''UNIQUE constraint failed: task.taskname'')
          else Inr (db\<lparr>tasks := tasks db @
                 [\<lparr>task_id = next_task_id db, taskname = name, program = p,
                   database = d, sequence = s, result = res, user_id = owner\<rparr>]\<rparr>)
      | _ \<Rightarrow> Inl (IntegrityError ''NOT NULL constraint failed''))"

text \<open>
  The body of the \<^verbatim>\<open>try\<close> of \<^verbatim>\<open>blast\<close> (lines 137 to 158): the first exception
  ends it. \<open>qblast\<close> is the upstream fetch with the reading and closing of its handle,
  \<open>json_dumps\<close> the serialiser, \<open>now\<close> the formatted time of the request.
\<close>

definition blast_try ::
  "(string option \<Rightarrow> string option \<Rightarrow> string option \<Rightarrow> error + string) \<Rightarrow>
   (string \<Rightarrow> blast_record generator) \<Rightarrow> (match_entry list \<Rightarrow> string) \<Rightarrow> string \<Rightarrow>
   store \<Rightarrow> user \<Rightarrow> string option \<Rightarrow> string option \<Rightarrow> string option \<Rightarrow> error + store" where
  "blast_try qblast NCBIXML_parse json_dumps now db current_user prog dbase sequ =
     (case qblast prog dbase sequ of
        Inl e \<Rightarrow> Inl e
      | Inr blast_results \<Rightarrow>
          (case parse_blast_results NCBIXML_parse blast_results of
             Inl e \<Rightarrow> Inl e
           | Inr parsed_results \<Rightarrow>
               add_and_commit db (py_str prog @ ''_'' @ py_str dbase @ ''_'' @ now)
                 prog dbase sequ (Some (json_dumps parsed_results)) (uid current_user)))"

text \<open>The handler \<^verbatim>\<open>blast\<close> (lines 125 to 166).\<close>

definition blast ::
  "(string option \<Rightarrow> string option \<Rightarrow> string option \<Rightarrow> error + string) \<Rightarrow>
   (string \<Rightarrow> blast_record generator) \<Rightarrow> (match_entry list \<Rightarrow> string) \<Rightarrow> string \<Rightarrow>
   store \<Rightarrow> user option \<Rightarrow> request \<Rightarrow> outcome" where
  "blast qblast NCBIXML_parse json_dumps now db current_user req =
     (case current_user of
        None \<Rightarrow> \<lparr>response = Unauthorized, flashed = [], persisted = db\<rparr>
      | Some cu \<Rightarrow>
          if request_method req = POST then
            (case blast_try qblast NCBIXML_parse json_dumps now db cu
                    (form req ''program'') (form req ''database'') (form req ''sequence'') of
               Inr db' \<Rightarrow>
                 \<lparr>response = Redirect_user_index (username cu),
                  flashed = [(BlastSuccess, ''success'')], persisted = db'\<rparr>
             | Inl e \<Rightarrow>
                 \<lparr>response = Render_blast True,
                  flashed = [(ErrorOccurred e, ''danger'')], persisted = db\<rparr>)
          else \<lparr>response = Render_blast False, flashed = [], persisted = db\<rparr>)"

text \<open>
  The handler \<^verbatim>\<open>results\<close> (lines 169 to 182). It only reads the store.
  \<^verbatim>\<open>task.result\<close> is falsy when it is \<^verbatim>\<open>None\<close> or the empty string.
\<close>

definition results ::
  "(string \<Rightarrow> error + json) \<Rightarrow> store \<Rightarrow> user option \<Rightarrow> string \<Rightarrow> string \<Rightarrow>
   response \<times> flash list" where
  "results json_loads db current_user uname tname =
     (case current_user of
        None \<Rightarrow> (Unauthorized, [])
      | Some cu \<Rightarrow>
          (case filter (\<lambda>u. username u = uname) (users db) of
             [] \<Rightarrow> (NotFound, [])
           | usr # _ \<Rightarrow>
               (case filter (\<lambda>t. taskname t = tname \<and> user_id t = uid usr) (tasks db) of
                  [] \<Rightarrow> (NotFound, [])
                | tsk # _ \<Rightarrow>
                    if user_id tsk \<noteq> uid cu
                    then (Redirect_user_index (username cu), [(NoAccessToTask, ''danger'')])
                    else
                      (case (case result tsk of
                               None \<Rightarrow> Inr (JArray [])
                             | Some text \<Rightarrow>
                                 if text = [] then Inr (JArray []) else json_loads text) of
                         Inl e \<Rightarrow> (ServerError e, [])
                       | Inr parsed_results \<Rightarrow> (Render_results tsk parsed_results, [])))))"

text \<open>
  A store seen by the user \<open>cu\<close> in which the stored results of the tasks of all
  other users have been replaced, each by \<open>f\<close> of its task.
\<close>

definition overwrite_foreign :: "user \<Rightarrow> (task \<Rightarrow> string option) \<Rightarrow> task \<Rightarrow> task" where
  "overwrite_foreign cu f t = (if user_id t = uid cu then t else t\<lparr>result := f t\<rparr>)"

definition overwrite_foreign_results ::
  "user \<Rightarrow> (task \<Rightarrow> string option) \<Rightarrow> store \<Rightarrow> store" where
  "overwrite_foreign_results cu f db = db\<lparr>tasks := map (overwrite_foreign cu f) (tasks db)\<rparr>"

section \<open>Example data\<close>

definition hsp_100 :: hsp where
  "hsp_100 =
     \<lparr>score = PyFloat 100, expect = PyFloat (1 / 1000), query_start = PyInt 1,
      query_end = PyInt 8, query = PyStr ''ACGTACGT'', match = PyStr ''||||||||'',
      sbjct = PyStr ''ACGTACGT''\<rparr>"

definition hsp_80 :: hsp where
  "hsp_80 =
     \<lparr>score = PyFloat 80, expect = PyFloat (1 / 20), query_start = PyInt 11,
      query_end = PyInt 16, query = PyStr ''TTGACA'', match = PyStr ''|| |||'',
      sbjct = PyStr ''TTCACA''\<rparr>"

definition clone_X :: alignment where
  "clone_X =
     \<lparr>title = PyStr ''Homo sapiens clone X'', length_attr = PyInt 500,
      hsps = [hsp_100, hsp_80]\<rparr>"

definition clone_Y :: alignment where
  "clone_Y =
     \<lparr>title = PyStr ''Mus musculus clone Y'', length_attr = PyInt 320,
      hsps = [hsp_80]\<rparr>"

text \<open>An alignment whose length the parser has left unset.\<close>

definition clone_bare :: alignment where
  "clone_bare =
     \<lparr>title = PyStr ''Homo sapiens clone X'', length_attr = PyNone, hsps = [hsp_100]\<rparr>"

definition record_bare :: blast_record where
  "record_bare = \<lparr>alignments = [clone_bare]\<rparr>"

definition record_X :: blast_record where
  "record_X = \<lparr>alignments = [clone_X]\<rparr>"

definition record_XY :: blast_record where
  "record_XY = \<lparr>alignments = [clone_X, clone_Y]\<rparr>"

text \<open>A stand-in for the parser of the library that knows six texts.\<close>

definition toy_parse :: "string \<Rightarrow> blast_record generator" where
  "toy_parse txt =
     (if txt = ''none'' then report []
      else if txt = ''X'' then report [record_X]
      else if txt = ''XY'' then report [record_XY]
      else if txt = ''X,XY'' then report [record_X, record_XY]
      else if txt = ''bare'' then report [record_bare]
      else if txt = ''X,broken'' then rejected [record_X] (ParseError ''unclosed token'')
      else rejected [] (ParseError ''Your XML file was empty''))"


definition toy_qblast :: "string option \<Rightarrow> string option \<Rightarrow> string option \<Rightarrow> error + string" where
  "toy_qblast prog dbase sequ =
     (if prog = Some ''blastn'' then Inr (py_str sequ)
      else Inl (NetworkError ''connection refused''))"

definition toy_dumps :: "match_entry list \<Rightarrow> string" where
  "toy_dumps es = (if es = [] then ''[]'' else ''[...]'')"

definition toy_loads :: "string \<Rightarrow> error + json" where
  "toy_loads text =
     (if text = ''[]'' then Inr (JArray []) else Inl (DecodeError ''Expecting value''))"

definition alice :: user where
  "alice = \<lparr>uid = 1, username = ''alice'', password = ''a''\<rparr>"

definition bob :: user where
  "bob = \<lparr>uid = 2, username = ''bob'', password = ''b''\<rparr>"

definition alice_task :: task where
  "alice_task =
     \<lparr>task_id = 1, taskname = ''blastn_nt_20240101_120000'', program = ''blastn'',
      database = ''nt'', sequence = ''ACGT'', result = Some ''[]'', user_id = 1\<rparr>"

definition toy_store :: store where
  "toy_store = \<lparr>users = [alice, bob], tasks = [alice_task]\<rparr>"

definition post_blastn :: "string \<Rightarrow> request" where
  "post_blastn sequ =
     \<lparr>request_method = POST,
      form = [''program'' \<mapsto> ''blastn'', ''database'' \<mapsto> ''nt'', ''sequence'' \<mapsto> sequ]\<rparr>"

definition post_tblastx :: request where
  "post_tblastx =
     \<lparr>request_method = POST,
      form = [''program'' \<mapsto> ''tblastx'', ''database'' \<mapsto> ''nt'', ''sequence'' \<mapsto> ''ACGT'']\<rparr>"

section \<open>The loops as list functions\<close>

lemma hsp_loop_append:
  "hsp_loop a hs acc = acc @ map (match_entry a) hs"
  by (induction hs arbitrary: acc) simp_all

lemma alignment_loop_append:
  "alignment_loop as acc = acc @ concat (map (\<lambda>a. map (match_entry a) (hsps a)) as)"
  by (induction as arbitrary: acc) (simp_all add: hsp_loop_append)

lemma alignment_loop_pairs:
  "alignment_loop (alignments r) acc =
     acc @ map (\<lambda>(a, h). match_entry a h) (hsps_of_record r)"
  by (simp add: alignment_loop_append hsps_of_record_def map_concat comp_def)

lemma record_loop_report:
  "record_loop (report rs) acc =
     Inr (acc @ map (\<lambda>(a, h). match_entry a h) (hsps_in_order rs))"
  by (induction rs arbitrary: acc)
     (simp_all add: report_def hsps_in_order_def alignment_loop_pairs)

lemma record_loop_rejected:
  "record_loop (rejected rs e) acc = Inl e"
  by (induction rs arbitrary: acc) (simp_all add: rejected_def)


lemma parse_report:
  "NCBIXML_parse txt = report rs \<Longrightarrow>
   parse_blast_results NCBIXML_parse txt =
     Inr (map (\<lambda>(a, h). match_entry a h) (hsps_in_order rs))"
  by (simp add: parse_blast_results_def record_loop_report)

lemma length_hsps_of_record:
  "length (hsps_of_record r) = (\<Sum>a\<leftarrow>alignments r. length (hsps a))"
  by (simp add: hsps_of_record_def length_concat comp_def)

lemma length_hsps_in_order:
  "length (hsps_in_order rs) = hsp_count rs"
  by (simp add: hsps_in_order_def hsp_count_def length_concat comp_def
      length_hsps_of_record)

lemma hsps_in_order_Cons:
  "hsps_in_order (r # rs) = hsps_of_record r @ hsps_in_order rs"
  by (simp add: hsps_in_order_def)

lemma hsps_in_order_append:
  "hsps_in_order (rs @ rs') = hsps_in_order rs @ hsps_in_order rs'"
  by (simp add: hsps_in_order_def)

lemma hsps_of_record_two:
  "alignments r = a0 # a1 # as \<Longrightarrow>
   \<exists>tl. hsps_of_record r = map (Pair a0) (hsps a0) @ map (Pair a1) (hsps a1) @ tl"
  by (simp add: hsps_of_record_def)

section \<open>The entries\<close>

lemma copied_verbatim_match_entry:
  "copied_verbatim (match_entry (fst ah) (snd ah)) ah"
  by (simp add: copied_verbatim_def match_entry_def)

lemma field_names_match_entry:
  "map fst (match_entry a h) = field_names"
  by (simp add: match_entry_def field_names_def)

lemma typed_as_source_match_entry:
  "typed_as_source (match_entry (fst ah) (snd ah)) ah"
  by (simp add: typed_as_source_def has_type_def match_entry_def)

section \<open>The example data\<close>

lemma toy_parse_X: "toy_parse ''X'' = report [record_X]"
  by (simp add: toy_parse_def)

lemma toy_parse_XY: "toy_parse ''XY'' = report [record_XY]"
  by (simp add: toy_parse_def)

lemma toy_parse_X_XY: "toy_parse ''X,XY'' = report [record_X, record_XY]"
  by (simp add: toy_parse_def)

lemma toy_parse_broken:
  "toy_parse ''X,broken'' = rejected [record_X] (ParseError ''unclosed token'')"
  by (simp add: toy_parse_def)

lemma hsps_in_order_X:
  "hsps_in_order [record_X] = [(clone_X, hsp_100), (clone_X, hsp_80)]"
  by (simp add: hsps_in_order_def hsps_of_record_def record_X_def clone_X_def)

lemma hsps_in_order_XY:
  "hsps_in_order [record_XY] = [(clone_X, hsp_100), (clone_X, hsp_80), (clone_Y, hsp_80)]"
  by (simp add: hsps_in_order_def hsps_of_record_def record_XY_def clone_X_def clone_Y_def)

lemma parse_X:
  "parse_blast_results toy_parse ''X'' =
     Inr [match_entry clone_X hsp_100, match_entry clone_X hsp_80]"
  using parse_report [of toy_parse "''X''" "[record_X]"]
  by (simp add: toy_parse_X hsps_in_order_X)

lemma parse_XY:
  "parse_blast_results toy_parse ''XY'' =
     Inr [match_entry clone_X hsp_100, match_entry clone_X hsp_80, match_entry clone_Y hsp_80]"
  using parse_report [of toy_parse "''XY''" "[record_XY]"]
  by (simp add: toy_parse_XY hsps_in_order_XY)

lemma toy_parse_bare: "toy_parse ''bare'' = report [record_bare]"
  by (simp add: toy_parse_def)

lemma hsps_in_order_bare:
  "hsps_in_order [record_bare] = [(clone_bare, hsp_100)]"
  by (simp add: hsps_in_order_def hsps_of_record_def record_bare_def clone_bare_def)

lemma parse_bare:
  "parse_blast_results toy_parse ''bare'' = Inr [match_entry clone_bare hsp_100]"
  using parse_report [of toy_parse "''bare''" "[record_bare]"]
  by (simp add: toy_parse_def hsps_in_order_def hsps_of_record_def record_bare_def
      clone_bare_def)

lemma parse_broken:
  "parse_blast_results toy_parse ''X,broken'' = Inl (ParseError ''unclosed token'')"
  by (simp add: parse_blast_results_def toy_parse_broken record_loop_rejected)

text \<open>A submission that succeeds adds its row, so the store of the model can change.\<close>

lemma blast_success_persists:
  "blast toy_qblast toy_parse toy_dumps ''20240102_130000'' toy_store (Some bob)
       (post_blastn ''none'') =
     \<lparr>response = Redirect_user_index ''bob'', flashed = [(BlastSuccess, ''success'')],
      persisted = toy_store\<lparr>tasks := [alice_task,
        \<lparr>task_id = 2, taskname = ''blastn_nt_20240102_130000'', program = ''blastn'',
         database = ''nt'', sequence = ''none'', result = Some ''[]'', user_id = 2\<rparr>]\<rparr>\<rparr>"
  by (simp add: blast_def blast_try_def post_blastn_def toy_qblast_def toy_parse_def
      parse_blast_results_def report_def add_and_commit_def toy_store_def alice_task_def
      next_task_id_def toy_dumps_def bob_def)

text \<open>The owner of a task is shown its result, another user is sent away.\<close>

lemma results_shown_to_owner:
  "results toy_loads toy_store (Some alice) ''alice'' ''blastn_nt_20240101_120000'' =
     (Render_results alice_task (JArray []), [])"
  by (simp add: results_def toy_store_def alice_def bob_def alice_task_def toy_loads_def)

lemma results_refused:
  "results toy_loads toy_store (Some bob) ''alice'' ''blastn_nt_20240101_120000'' =
     (Redirect_user_index ''bob'', [(NoAccessToTask, ''danger'')])"
  by (simp add: results_def toy_store_def alice_def bob_def alice_task_def)

section \<open>The results page and the tasks of other users\<close>

lemma filter_overwrite_foreign:
  "filter (\<lambda>t. taskname t = tname \<and> user_id t = k) (map (overwrite_foreign cu f) ts) =
   map (overwrite_foreign cu f) (filter (\<lambda>t. taskname t = tname \<and> user_id t = k) ts)"
  by (induction ts) (simp_all add: overwrite_foreign_def)

text \<open>
  What \<^verbatim>\<open>results\<close> answers to a logged-in user does not depend on the stored
  results of the tasks of other users.
\<close>

lemma results_ignores_foreign_results:
  "results json_loads (overwrite_foreign_results cu f db) (Some cu) uname tname =
   results json_loads db (Some cu) uname tname"
proof (cases "filter (\<lambda>u. username u = uname) (users db)")
  case Nil
  then show ?thesis
    by (simp add: results_def overwrite_foreign_results_def)
next
  case (Cons usr us)
  note usr = this
  show ?thesis
  proof (cases "filter (\<lambda>t. taskname t = tname \<and> user_id t = uid usr) (tasks db)")
    case Nil
    then show ?thesis
      using usr
      by (simp add: results_def overwrite_foreign_results_def filter_overwrite_foreign)
  next
    case (Cons tsk ts)
    then show ?thesis
      using usr
      by (simp add: results_def overwrite_foreign_results_def filter_overwrite_foreign
          overwrite_foreign_def)
  qed
qed

section \<open>The try block of the submission\<close>

lemma blast_try_fetch_error:
  "qblast prog dbase sequ = Inl e \<Longrightarrow>
   blast_try qblast NCBIXML_parse json_dumps now db cu prog dbase sequ = Inl e"
  by (simp add: blast_try_def)

lemma blast_try_parse_error:
  "qblast prog dbase sequ = Inr txt \<Longrightarrow> parse_blast_results NCBIXML_parse txt = Inl e \<Longrightarrow>
   blast_try qblast NCBIXML_parse json_dumps now db cu prog dbase sequ = Inl e"
  by (simp add: blast_try_def)

section \<open>Properties of the specification\<close>

text \<open>
  C1. When the parser reads the text as a report with the records \<open>rs\<close>,
  \<^verbatim>\<open>parse_blast_results\<close> returns a list, and its length is the number of HSPs of
  \<open>rs\<close>, summed over the records and over the alignments of each record: one entry for
  each HSP, none more and none less.
\<close>

theorem parse_length:
  assumes "NCBIXML_parse txt = report rs"
  shows "\<exists>es. parse_blast_results NCBIXML_parse txt = Inr es \<and> length es = hsp_count rs"
  using assms by (simp add: parse_report length_hsps_in_order)

theorem parse_length_witness:
  "toy_parse ''X,XY'' = report [record_X, record_XY] \<and>
   hsp_count [record_X, record_XY] = 5 \<and>
   parse_blast_results toy_parse ''X,XY'' =
     Inr [match_entry clone_X hsp_100, match_entry clone_X hsp_80,
          match_entry clone_X hsp_100, match_entry clone_X hsp_80,
          match_entry clone_Y hsp_80]"
proof -
  have c: "hsp_count [record_X, record_XY] = 5"
    by (simp add: hsp_count_def record_X_def record_XY_def clone_X_def clone_Y_def)
  have o: "hsps_in_order [record_X, record_XY] =
             [(clone_X, hsp_100), (clone_X, hsp_80),
              (clone_X, hsp_100), (clone_X, hsp_80), (clone_Y, hsp_80)]"
    using hsps_in_order_append [of "[record_X]" "[record_XY]"]
    by (simp add: hsps_in_order_X hsps_in_order_XY)
  have r: "parse_blast_results toy_parse ''X,XY'' =
     Inr [match_entry clone_X hsp_100, match_entry clone_X hsp_80,
          match_entry clone_X hsp_100, match_entry clone_X hsp_80,
          match_entry clone_Y hsp_80]"
    using parse_report [of toy_parse "''X,XY''" "[record_X, record_XY]"]
    by (simp add: toy_parse_X_XY o)
  show ?thesis
    using parse_length [of toy_parse "''X,XY''" "[record_X, record_XY]"] toy_parse_X_XY c r
    by simp
qed

text \<open>
  C2. When the parser reads the text as a report with the records \<open>rs\<close>, the list
  returned is the list of the HSPs of \<open>rs\<close> in nesting order (records, then the
  alignments of a record, then the HSPs of an alignment), each turned into its entry:
  nothing is reordered, nothing is merged. In particular, when the first record has at
  least two alignments, the entry of the HSP number \<open>i\<close> of its first alignment stands
  at position \<open>i\<close>, the entry of the HSP number \<open>j\<close> of its second alignment at
  position \<open>length (hsps a0) + j\<close>, which is further on.
\<close>

theorem parse_order:
  assumes "NCBIXML_parse txt = report rs"
  shows "parse_blast_results NCBIXML_parse txt =
           Inr (map (\<lambda>(a, h). match_entry a h) (hsps_in_order rs)) \<and>
         (\<forall>r0 rest a0 a1 as i j.
            rs = r0 # rest \<and> alignments r0 = a0 # a1 # as \<and>
            i < length (hsps a0) \<and> j < length (hsps a1) \<longrightarrow>
            (\<exists>es. parse_blast_results NCBIXML_parse txt = Inr es \<and>
                  es ! i = match_entry a0 (hsps a0 ! i) \<and>
                  es ! (length (hsps a0) + j) = match_entry a1 (hsps a1 ! j) \<and>
                  i < length (hsps a0) + j))"
proof (intro conjI allI impI)
  show eq: "parse_blast_results NCBIXML_parse txt =
           Inr (map (\<lambda>(a, h). match_entry a h) (hsps_in_order rs))"
    using assms by (rule parse_report)
  fix r0 rest a0 a1 as i j
  assume h: "rs = r0 # rest \<and> alignments r0 = a0 # a1 # as \<and>
            i < length (hsps a0) \<and> j < length (hsps a1)"
  then obtain tl where tl:
    "hsps_of_record r0 = map (Pair a0) (hsps a0) @ map (Pair a1) (hsps a1) @ tl"
    using hsps_of_record_two by blast
  let ?es = "map (\<lambda>(a, h). match_entry a h) (hsps_in_order rs)"
  have es: "?es = map (match_entry a0) (hsps a0) @ map (match_entry a1) (hsps a1) @
                  map (\<lambda>(a, h). match_entry a h) (tl @ hsps_in_order rest)"
    using h tl by (simp add: hsps_in_order_Cons comp_def)
  have "?es ! i = match_entry a0 (hsps a0 ! i)"
    unfolding es using h by (simp add: nth_append)
  moreover have "?es ! (length (hsps a0) + j) = match_entry a1 (hsps a1 ! j)"
    unfolding es using h by (simp add: nth_append)
  ultimately show "\<exists>es. parse_blast_results NCBIXML_parse txt = Inr es \<and>
                  es ! i = match_entry a0 (hsps a0 ! i) \<and>
                  es ! (length (hsps a0) + j) = match_entry a1 (hsps a1 ! j) \<and>
                  i < length (hsps a0) + j"
    using eq h by simp
qed

theorem parse_order_witness:
  "toy_parse ''XY'' = report [record_XY] \<and>
   alignments record_XY = [clone_X, clone_Y] \<and>
   1 < length (hsps clone_X) \<and> 0 < length (hsps clone_Y) \<and>
   parse_blast_results toy_parse ''XY'' =
     Inr [match_entry clone_X hsp_100, match_entry clone_X hsp_80, match_entry clone_Y hsp_80]"
  using parse_order [of toy_parse "''XY''" "[record_XY]"] toy_parse_XY hsps_in_order_XY
  by (simp add: record_XY_def clone_X_def clone_Y_def)

text \<open>
  C3. When the parser reads the text as a report with the records \<open>rs\<close>, the entry at
  each position of the result agrees with the HSP at that position of the nesting order
  and with the alignment enclosing it: the nine values found under the keys of the entry
  are the attributes themselves (title and length of the alignment; score, e-value, the
  two query offsets and the three aligned strings of the HSP), whatever they are.
\<close>

theorem parse_copies_fields:
  assumes "NCBIXML_parse txt = report rs"
  shows "\<exists>es. parse_blast_results NCBIXML_parse txt = Inr es \<and>
              list_all2 copied_verbatim es (hsps_in_order rs)"
proof -
  have "list_all2 copied_verbatim
          (map (\<lambda>(a, h). match_entry a h) (hsps_in_order rs)) (hsps_in_order rs)"
    by (simp add: list_all2_map1 list_all2_same split_beta copied_verbatim_match_entry)
  then show ?thesis
    using assms by (simp add: parse_report)
qed

theorem parse_copies_fields_witness:
  "toy_parse ''X'' = report [record_X] \<and>
   parse_blast_results toy_parse ''X'' =
     Inr [match_entry clone_X hsp_100, match_entry clone_X hsp_80] \<and>
   list_all2 copied_verbatim
     [match_entry clone_X hsp_100, match_entry clone_X hsp_80]
     [(clone_X, hsp_100), (clone_X, hsp_80)]"
  using parse_copies_fields [of toy_parse "''X''" "[record_X]"]
    toy_parse_X hsps_in_order_X parse_X
  by simp




text \<open>
  C5. When the upstream fetch of a submission raises, or the fetch returns a text and
  \<^verbatim>\<open>parse_blast_results\<close> raises on it, the store after the request is the store
  before it, whoever sent the request and however; and for a logged-in user who posted
  the form, the answer is the submission page again with the error flashed.
\<close>

theorem blast_failure_keeps_store:
  assumes "qblast (form req ''program'') (form req ''database'') (form req ''sequence'') = Inl e \<or>
           (\<exists>txt. qblast (form req ''program'') (form req ''database'') (form req ''sequence'')
                    = Inr txt \<and>
                  parse_blast_results NCBIXML_parse txt = Inl e)"
  shows "persisted (blast qblast NCBIXML_parse json_dumps now db current_user req) = db \<and>
         (\<forall>cu. current_user = Some cu \<and> request_method req = POST \<longrightarrow>
            blast qblast NCBIXML_parse json_dumps now db current_user req =
              \<lparr>response = Render_blast True, flashed = [(ErrorOccurred e, ''danger'')],
               persisted = db\<rparr>)"
proof -
  have "blast_try qblast NCBIXML_parse json_dumps now db cu
          (form req ''program'') (form req ''database'') (form req ''sequence'') = Inl e" for cu
    using assms by (auto simp: blast_try_fetch_error blast_try_parse_error)
  then show ?thesis
    by (simp add: blast_def split: option.split)
qed

theorem blast_failure_keeps_store_witness:
  "toy_qblast (form post_tblastx ''program'') (form post_tblastx ''database'')
       (form post_tblastx ''sequence'') = Inl (NetworkError ''connection refused'') \<and>
   blast toy_qblast toy_parse toy_dumps ''20240102_130000'' toy_store (Some bob) post_tblastx =
     \<lparr>response = Render_blast True,
      flashed = [(ErrorOccurred (NetworkError ''connection refused''), ''danger'')],
      persisted = toy_store\<rparr> \<and>
   toy_qblast (form (post_blastn ''X,broken'') ''program'')
       (form (post_blastn ''X,broken'') ''database'')
       (form (post_blastn ''X,broken'') ''sequence'') = Inr ''X,broken'' \<and>
   parse_blast_results toy_parse ''X,broken'' = Inl (ParseError ''unclosed token'') \<and>
   blast toy_qblast toy_parse toy_dumps ''20240102_130000'' toy_store (Some bob)
       (post_blastn ''X,broken'') =
     \<lparr>response = Render_blast True,
      flashed = [(ErrorOccurred (ParseError ''unclosed token''), ''danger'')],
      persisted = toy_store\<rparr>"
proof -
  have n: "toy_qblast (form post_tblastx ''program'') (form post_tblastx ''database'')
       (form post_tblastx ''sequence'') = Inl (NetworkError ''connection refused'')"
    by (simp add: toy_qblast_def post_tblastx_def)
  have q: "toy_qblast (form (post_blastn ''X,broken'') ''program'')
       (form (post_blastn ''X,broken'') ''database'')
       (form (post_blastn ''X,broken'') ''sequence'') = Inr ''X,broken''"
    by (simp add: toy_qblast_def post_blastn_def)
  have m: "request_method post_tblastx = POST" "request_method (post_blastn ''X,broken'') = POST"
    by (simp_all add: post_tblastx_def post_blastn_def)
  show ?thesis
    using blast_failure_keeps_store [of toy_qblast post_tblastx
        "NetworkError ''connection refused''" toy_parse toy_dumps "''20240102_130000''"
        toy_store "Some bob"]
      blast_failure_keeps_store [of toy_qblast "post_blastn ''X,broken''"
        "ParseError ''unclosed token''" toy_parse toy_dumps "''20240102_130000''"
        toy_store "Some bob"]
      n q parse_broken m
    by simp
qed

text \<open>
  C6, as the program has it. When the parser reads the text as a report with the
  records \<open>rs\<close>, the entry at each position of the result belongs to the HSP at
  that position of the nesting order and to the alignment enclosing it, and
  \<^item> it is a flat dictionary whose keys are, in this order, title, length, score,
    e_value, query_start, query_end, qseq, match and hseq;
  \<^item> its values are the attributes themselves, neither checked nor converted;
  \<^item> so, attribute by attribute, its title is a string exactly when the title of the
    alignment is, its length an integer exactly when the length of the alignment is,
    its score and e-value numbers and its query offsets integers exactly when those
    of the HSP are.
\<close>

theorem entries_named_and_typed:
  assumes "NCBIXML_parse txt = report rs"
  shows "\<exists>es. parse_blast_results NCBIXML_parse txt = Inr es \<and>
              list_all2
                (\<lambda>e ah. map fst e = field_names \<and> copied_verbatim e ah \<and>
                         typed_as_source e ah)
                es (hsps_in_order rs)"
proof -
  have "list_all2
          (\<lambda>e ah. map fst e = field_names \<and> copied_verbatim e ah \<and> typed_as_source e ah)
          (map (\<lambda>(a, h). match_entry a h) (hsps_in_order rs)) (hsps_in_order rs)"
    by (simp add: list_all2_map1 list_all2_same split_beta field_names_match_entry
        copied_verbatim_match_entry typed_as_source_match_entry)
  then show ?thesis
    using assms by (simp add: parse_report)
qed

theorem entries_named_and_typed_witness:
  "toy_parse ''bare'' = report [record_bare] \<and>
   parse_blast_results toy_parse ''bare'' = Inr [match_entry clone_bare hsp_100] \<and>
   map fst (match_entry clone_bare hsp_100) = field_names \<and>
   copied_verbatim (match_entry clone_bare hsp_100) (clone_bare, hsp_100) \<and>
   typed_as_source (match_entry clone_bare hsp_100) (clone_bare, hsp_100) \<and>
   is_str (title clone_bare) \<and>
   has_type (match_entry clone_bare hsp_100) ''title'' is_str \<and>
   \<not> is_int (length_attr clone_bare) \<and>
   \<not> has_type (match_entry clone_bare hsp_100) ''length'' is_int \<and>
   is_numeric (score hsp_100) \<and>
   has_type (match_entry clone_bare hsp_100) ''score'' is_numeric"
proof -
  have t: "is_str (title clone_bare)" "\<not> is_int (length_attr clone_bare)"
    "is_numeric (score hsp_100)"
    by (simp_all add: clone_bare_def hsp_100_def)
  have "typed_as_source (match_entry clone_bare hsp_100) (clone_bare, hsp_100) \<and>
        map fst (match_entry clone_bare hsp_100) = field_names \<and>
        copied_verbatim (match_entry clone_bare hsp_100) (clone_bare, hsp_100)"
    using entries_named_and_typed [of toy_parse "''bare''" "[record_bare]"]
      toy_parse_bare parse_bare hsps_in_order_bare
    by simp
  then show ?thesis
    using t toy_parse_bare parse_bare by (simp add: typed_as_source_def)
qed

text \<open>
  C6, as it is written, fails: the entries of the report with the one record
  \<open>record_X\<close> do not have the nine names of the data model, and looking up
  query_sequence, match_line or subject_sequence in the first of them finds nothing.
  And since the values are copied without a check or a conversion, the entry of an
  alignment whose length is \<^verbatim>\<open>None\<close> has the length \<^verbatim>\<open>None\<close>, which is
  not an integer.
\<close>

theorem entry_names_counterexample:
  "parse_blast_results toy_parse ''X'' =
     Inr [match_entry clone_X hsp_100, match_entry clone_X hsp_80] \<and>
   map fst (match_entry clone_X hsp_100) \<noteq> spec_field_names \<and>
   map_of (match_entry clone_X hsp_100) ''query_sequence'' = None \<and>
   map_of (match_entry clone_X hsp_100) ''match_line'' = None \<and>
   map_of (match_entry clone_X hsp_100) ''subject_sequence'' = None \<and>
   parse_blast_results toy_parse ''bare'' = Inr [match_entry clone_bare hsp_100] \<and>
   map_of (match_entry clone_bare hsp_100) ''length'' = Some PyNone \<and>
   \<not> is_int PyNone"
  using parse_X parse_bare
  by (simp add: match_entry_def spec_field_names_def clone_bare_def)

text \<open>
  C7. When the parser reads the text as a report with no record,
  \<^verbatim>\<open>parse_blast_results\<close> returns the empty list, not an error.
\<close>

theorem parse_empty:
  assumes "NCBIXML_parse txt = report []"
  shows "parse_blast_results NCBIXML_parse txt = Inr []"
  using assms by (simp add: parse_blast_results_def report_def)

theorem parse_empty_witness:
  "toy_parse ''none'' = report [] \<and> parse_blast_results toy_parse ''none'' = Inr []"
proof -
  have p: "toy_parse ''none'' = report []"
    by (simp add: toy_parse_def)
  show ?thesis
    using parse_empty [of toy_parse "''none''"] p by simp
qed

text \<open>
  C8. For a logged-in user whose id is not the owner id of a task, the handler
  \<^verbatim>\<open>results\<close> never answers with the page of that task and its decoded result,
  whatever the store, the user name and the task name of the address.
\<close>

theorem results_owner_only:
  assumes "user_id t \<noteq> uid cu"
  shows "fst (results json_loads db (Some cu) uname tname) \<noteq> Render_results t parsed"
  using assms
  by (auto simp: results_def split: list.splits option.splits sum.splits if_splits)

theorem results_owner_only_witness:
  "user_id alice_task \<noteq> uid bob \<and>
   fst (results toy_loads toy_store (Some bob) ''alice'' ''blastn_nt_20240101_120000'')
     \<noteq> Render_results alice_task (JArray [])"
proof -
  have h: "user_id alice_task \<noteq> uid bob"
    by (simp add: alice_task_def bob_def)
  show ?thesis
    using results_owner_only [OF h, of toy_loads toy_store "''alice''"
        "''blastn_nt_20240101_120000''" "JArray []"] h
    by simp
qed

text \<open>
  C9. For a report with one record, holding one alignment with the title
  "Homo sapiens clone X" and the length 500, holding two HSPs with the scores 100 and
  80, \<^verbatim>\<open>parse_blast_results\<close> returns exactly two entries, both with that title and
  that length, the first with the score 100 and the second with the score 80.
\<close>

theorem parse_example:
  assumes "NCBIXML_parse txt = report [r]"
    and "alignments r = [a]"
    and "title a = PyStr ''Homo sapiens clone X''"
    and "length_attr a = PyInt 500"
    and "hsps a = [h1, h2]"
    and "score h1 = PyFloat 100"
    and "score h2 = PyFloat 80"
  shows "\<exists>e1 e2. parse_blast_results NCBIXML_parse txt = Inr [e1, e2] \<and>
           map_of e1 ''title'' = Some (PyStr ''Homo sapiens clone X'') \<and>
           map_of e1 ''length'' = Some (PyInt 500) \<and>
           map_of e1 ''score'' = Some (PyFloat 100) \<and>
           map_of e2 ''title'' = Some (PyStr ''Homo sapiens clone X'') \<and>
           map_of e2 ''length'' = Some (PyInt 500) \<and>
           map_of e2 ''score'' = Some (PyFloat 80)"
proof -
  have "hsps_in_order [r] = [(a, h1), (a, h2)]"
    using assms by (simp add: hsps_in_order_def hsps_of_record_def)
  then have "parse_blast_results NCBIXML_parse txt = Inr [match_entry a h1, match_entry a h2]"
    using assms(1) by (simp add: parse_report)
  then show ?thesis
    using assms by (simp add: match_entry_def)
qed

theorem parse_example_witness:
  "toy_parse ''X'' = report [record_X] \<and> alignments record_X = [clone_X] \<and>
   title clone_X = PyStr ''Homo sapiens clone X'' \<and> length_attr clone_X = PyInt 500 \<and>
   hsps clone_X = [hsp_100, hsp_80] \<and> score hsp_100 = PyFloat 100 \<and>
   score hsp_80 = PyFloat 80 \<and>
   parse_blast_results toy_parse ''X'' =
     Inr [match_entry clone_X hsp_100, match_entry clone_X hsp_80] \<and>
   map_of (match_entry clone_X hsp_100) ''score'' = Some (PyFloat 100) \<and>
   map_of (match_entry clone_X hsp_80) ''score'' = Some (PyFloat 80) \<and>
   map_of (match_entry clone_X hsp_80) ''title'' = Some (PyStr ''Homo sapiens clone X'') \<and>
   map_of (match_entry clone_X hsp_80) ''length'' = Some (PyInt 500)"
  using parse_example [of toy_parse "''X''" record_X clone_X hsp_100 hsp_80]
    toy_parse_X parse_X
  by (simp add: record_X_def clone_X_def hsp_100_def hsp_80_def match_entry_def)

text \<open>
  C10. When the parser reads one text as the records \<open>r1\<close>, a second as the records
  \<open>r2\<close> and a third as \<open>r1\<close> followed by \<open>r2\<close>, the entries of the third text are
  the entries of the first followed by the entries of the second.
\<close>

theorem parse_concat:
  assumes "NCBIXML_parse t1 = report r1"
    and "NCBIXML_parse t2 = report r2"
    and "NCBIXML_parse t12 = report (r1 @ r2)"
  shows "\<exists>e1 e2. parse_blast_results NCBIXML_parse t1 = Inr e1 \<and>
                 parse_blast_results NCBIXML_parse t2 = Inr e2 \<and>
                 parse_blast_results NCBIXML_parse t12 = Inr (e1 @ e2)"
  using assms by (simp add: parse_report hsps_in_order_append)

theorem parse_concat_witness:
  "toy_parse ''X'' = report [record_X] \<and>
   toy_parse ''XY'' = report [record_XY] \<and>
   toy_parse ''X,XY'' = report ([record_X] @ [record_XY]) \<and>
   parse_blast_results toy_parse ''X,XY'' =
     Inr ([match_entry clone_X hsp_100, match_entry clone_X hsp_80] @
          [match_entry clone_X hsp_100, match_entry clone_X hsp_80,
           match_entry clone_Y hsp_80])"
  using parse_concat [of toy_parse "''X''" "[record_X]" "''XY''" "[record_XY]" "''X,XY''"]
    toy_parse_X toy_parse_XY toy_parse_X_XY parse_X parse_XY
  by auto

end
